theory Spec2Isabelle
  imports Complex_Main "HOL-Library.List_Lexorder" "HOL-Library.Word"
begin

section \<open>bAImax: the severity classifier of \<^verbatim>\<open>src/core\<close>\<close>

text \<open>
  This theory embeds the class \<^verbatim>\<open>bAImaxClasificadorMejorado\<close> of
  \<^verbatim>\<open>src/core/baimax_clasificador_mejorado.py\<close> and the guards of
  \<^verbatim>\<open>bAImaxClassifier\<close> of \<^verbatim>\<open>src/core/baimax_core.py\<close>.

  Conventions.
  \<^item> A Python \<^verbatim>\<open>str\<close> is a list of Unicode code points (\<open>nat list\<close>): its
    \<^verbatim>\<open>len\<close> counts code points, and the accented letters of Spanish lie outside
    the 8-bit characters of HOL.
  \<^item> A missing value (\<^verbatim>\<open>None\<close>, \<^verbatim>\<open>NaN\<close>) is \<open>None\<close>.
  \<^item> An exception is a value \<open>Inl e\<close> of a sum type; a method that mutates
    \<^verbatim>\<open>self\<close> takes the instance and returns the new one beside its result.
  \<^item> Floating-point numbers are modelled by the reals.
  \<^item> \<^verbatim>\<open>print\<close> is taken to succeed; what a line prints is modelled only where
    building the line can raise.
  \<^item> pandas, scikit-learn, \<^verbatim>\<open>unicodedata\<close> and \<^verbatim>\<open>re\<close> are not code of the
    repository: what the class calls there is a field of a record that the
    functions below take as a parameter.
\<close>

subsection \<open>Strings\<close>

type_synonym ustring = "nat list"

definition ascii :: "string \<Rightarrow> ustring" where
  "ascii s = map of_char s"

text \<open>
  The Unicode tables the text normalisation consults: \<^verbatim>\<open>str.lower\<close>,
  \<^verbatim>\<open>unicodedata.normalize('NFKD', .)\<close>, and the classes \<^verbatim>\<open>\w\<close> and
  \<^verbatim>\<open>\s\<close> of \<^verbatim>\<open>re\<close> on \<^verbatim>\<open>str\<close> patterns (\<^verbatim>\<open>\s\<close> is also what
  \<^verbatim>\<open>str.split()\<close> and \<^verbatim>\<open>str.strip()\<close> take for whitespace).
\<close>

record unicode =
  str_lower :: "ustring \<Rightarrow> ustring"
  normalize_NFKD :: "ustring \<Rightarrow> ustring"
  re_w :: "nat \<Rightarrow> bool"
  re_s :: "nat \<Rightarrow> bool"

text \<open>\<^verbatim>\<open>re.sub(r'[^\w\s\u00C0-\u017F]', ' ', texto)\<close>: every code point that is
  neither a word character, nor whitespace, nor in the range U+00C0..U+017F becomes a
  space (U+0020).\<close>

definition sub_especiales :: "unicode \<Rightarrow> ustring \<Rightarrow> ustring" where
  "sub_especiales u t =
     map (\<lambda>c. if re_w u c \<or> re_s u c \<or> (192 \<le> c \<and> c \<le> 383) then c else 32) t"

text \<open>\<^verbatim>\<open>re.sub(r'\s+', ' ', texto)\<close>: every maximal run of whitespace becomes one
  space. The flag says that the previous code point was whitespace.\<close>

fun sub_espacios_desde :: "unicode \<Rightarrow> bool \<Rightarrow> ustring \<Rightarrow> ustring" where
  "sub_espacios_desde u previo [] = []"
| "sub_espacios_desde u previo (c # cs) =
     (if re_s u c
      then (if previo then sub_espacios_desde u True cs
            else 32 # sub_espacios_desde u True cs)
      else c # sub_espacios_desde u False cs)"

definition sub_espacios :: "unicode \<Rightarrow> ustring \<Rightarrow> ustring" where
  "sub_espacios u t = sub_espacios_desde u False t"

text \<open>\<^verbatim>\<open>str.strip()\<close>.\<close>

definition strip :: "unicode \<Rightarrow> ustring \<Rightarrow> ustring" where
  "strip u t = rev (dropWhile (re_s u) (rev (dropWhile (re_s u) t)))"

text \<open>\<^verbatim>\<open>str.split()\<close>: the maximal runs of non-whitespace. The accumulator holds
  the current word, reversed.\<close>

fun split_desde :: "unicode \<Rightarrow> ustring \<Rightarrow> ustring \<Rightarrow> ustring list" where
  "split_desde u acc [] = (if acc = [] then [] else [rev acc])"
| "split_desde u acc (c # cs) =
     (if re_s u c
      then (if acc = [] then split_desde u [] cs else rev acc # split_desde u [] cs)
      else split_desde u (c # acc) cs)"

definition split :: "unicode \<Rightarrow> ustring \<Rightarrow> ustring list" where
  "split u t = split_desde u [] t"

text \<open>\<^verbatim>\<open>palabra in x\<close> on strings, and \<^verbatim>\<open>str.contains\<close> with an alternation of
  literals: the pattern occurs somewhere in the text.\<close>

fun empieza_con :: "ustring \<Rightarrow> ustring \<Rightarrow> bool" where
  "empieza_con t [] = True"
| "empieza_con [] (p # ps) = False"
| "empieza_con (c # cs) (p # ps) = (c = p \<and> empieza_con cs ps)"

fun contiene :: "ustring \<Rightarrow> ustring \<Rightarrow> bool" where
  "contiene [] p = (p = [])"
| "contiene (c # cs) p = (empieza_con (c # cs) p \<or> contiene cs p)"

definition str_contains :: "ustring \<Rightarrow> ustring list \<Rightarrow> bool" where
  "str_contains t alternativas = list_ex (contiene t) alternativas"

subsection \<open>\<^verbatim>\<open>preprocesar_texto\<close>\<close>

text \<open>
  \<^verbatim>\<open>
  if pd.isna(texto) or texto == '':
      return ''
  texto = str(texto).lower()
  texto = unicodedata.normalize('NFKD', texto)
  texto = re.sub(r'[^\w\s\u00C0-\u017F]', ' ', texto)
  texto = re.sub(r'\s+', ' ', texto).strip()
  return texto
  \<close>
\<close>

definition preprocesar_texto :: "unicode \<Rightarrow> ustring option \<Rightarrow> ustring" where
  "preprocesar_texto u texto =
     (case texto of
        None \<Rightarrow> []
      | Some t \<Rightarrow>
          if t = [] then []
          else strip u (sub_espacios u (sub_especiales u (normalize_NFKD u (str_lower u t)))))"

subsection \<open>The text features of one row (\<^verbatim>\<open>extraer_features_texto\<close>)\<close>

record features_texto =
  comentario_limpio :: ustring
  longitud_comentario :: nat
  num_palabras :: nat
  palabras_urgentes :: nat
  menciona_medicos :: nat
  menciona_agua :: nat
  menciona_seguridad :: nat
  menciona_educacion :: nat

definition lista_palabras_urgentes :: "ustring list" where
  "lista_palabras_urgentes =
     map ascii [''urgente'', ''grave'', ''critico'', ''emergencia'', ''falta'', ''no hay'',
                ''necesitamos'']"

definition bool_int :: "bool \<Rightarrow> nat" where
  "bool_int b = (if b then 1 else 0)"

definition features_texto_fila :: "unicode \<Rightarrow> ustring option \<Rightarrow> features_texto" where
  "features_texto_fila u comentario =
     (let limpio = preprocesar_texto u comentario in
      \<lparr> comentario_limpio = limpio,
        longitud_comentario = length limpio,
        num_palabras = length (split u limpio),
        palabras_urgentes = length (filter (contiene limpio) lista_palabras_urgentes),
        menciona_medicos =
          bool_int (str_contains limpio (map ascii [''medico'', ''doctor'', ''hospital'', ''salud''])),
        menciona_agua =
          bool_int (str_contains limpio (map ascii [''agua'', ''potable'', ''saneamiento''])),
        menciona_seguridad =
          bool_int (str_contains limpio (map ascii [''segur'', ''peligr'', ''violen''])),
        menciona_educacion =
          bool_int (str_contains limpio (map ascii [''escuela'', ''educacion'', ''biblioteca''])) \<rparr>)"

text \<open>
  The Unicode tables of Python 3 on the code points U+0000..U+00FF (ASCII and Latin-1),
  which is where Spanish text lives, and on the code points that the decomposition of
  such text produces (the combining marks U+0300..U+0304, U+0308, U+030A and U+0327,
  the Greek letter U+03BC and the fraction slash U+2044).
  \<^item> \<^verbatim>\<open>str.lower\<close> maps A..Z and the Latin-1 capitals U+00C0..U+00DE (the
    multiplication sign U+00D7 apart) to their small letters, 32 code points up.
  \<^item> \<^verbatim>\<open>NFKD\<close> splits every accented letter into its base letter and a combining
    mark, and replaces the compatibility characters (no-break space, spacing accents,
    ordinal indicators, superscript digits, the micro sign, the vulgar fractions) by
    their decompositions; the two tables list every code point below U+0100 that has
    a decomposition (the symbols U+00A0..U+00BF, the letters U+00C0..U+00FF), all
    others are left as they are.
  \<^item> \<^verbatim>\<open>\w\<close> holds of the digits, the ASCII letters, the underscore, the
    letters of Latin-1, its ordinal indicators, superscript digits, micro sign and
    fractions, and of U+03BC; it does not hold of a combining mark.
  \<^item> \<^verbatim>\<open>\s\<close> holds of U+0009..U+000D, U+001C..U+0020, U+0085 and U+00A0.

  The tables are used on text of this range only.
\<close>

definition lower_es :: "nat \<Rightarrow> nat" where
  "lower_es c =
     (if (65 \<le> c \<and> c \<le> 90) \<or> (192 \<le> c \<and> c \<le> 222 \<and> c \<noteq> 215) then c + 32 else c)"

definition descomposiciones_simbolos :: "(nat \<times> ustring) list" where
  "descomposiciones_simbolos =
     [(160, [32]), (168, [32, 776]), (170, [97]), (175, [32, 772]), (178, [50]),
      (179, [51]), (180, [32, 769]), (181, [956]), (184, [32, 807]), (185, [49]),
      (186, [111]), (188, [49, 8260, 52]), (189, [49, 8260, 50]), (190, [51, 8260, 52])]"

definition descomposiciones_letras :: "(nat \<times> ustring) list" where
  "descomposiciones_letras =
     [(192, [65, 768]), (193, [65, 769]), (194, [65, 770]), (195, [65, 771]),
      (196, [65, 776]), (197, [65, 778]), (199, [67, 807]), (200, [69, 768]),
      (201, [69, 769]), (202, [69, 770]), (203, [69, 776]), (204, [73, 768]),
      (205, [73, 769]), (206, [73, 770]), (207, [73, 776]), (209, [78, 771]),
      (210, [79, 768]), (211, [79, 769]), (212, [79, 770]), (213, [79, 771]),
      (214, [79, 776]), (217, [85, 768]), (218, [85, 769]), (219, [85, 770]),
      (220, [85, 776]), (221, [89, 769]), (224, [97, 768]), (225, [97, 769]),
      (226, [97, 770]), (227, [97, 771]), (228, [97, 776]), (229, [97, 778]),
      (231, [99, 807]), (232, [101, 768]), (233, [101, 769]), (234, [101, 770]),
      (235, [101, 776]), (236, [105, 768]), (237, [105, 769]), (238, [105, 770]),
      (239, [105, 776]), (241, [110, 771]), (242, [111, 768]), (243, [111, 769]),
      (244, [111, 770]), (245, [111, 771]), (246, [111, 776]), (249, [117, 768]),
      (250, [117, 769]), (251, [117, 770]), (252, [117, 776]), (253, [121, 769]),
      (255, [121, 776])]"

definition nfkd_es :: "nat \<Rightarrow> ustring" where
  "nfkd_es c =
     (if c < 160 then [c]
      else if c < 192
      then (case map_of descomposiciones_simbolos c of None \<Rightarrow> [c] | Some d \<Rightarrow> d)
      else if c < 256
      then (case map_of descomposiciones_letras c of None \<Rightarrow> [c] | Some d \<Rightarrow> d)
      else [c])"

definition w_es :: "nat \<Rightarrow> bool" where
  "w_es c =
     (if c < 128
      then (48 \<le> c \<and> c \<le> 57) \<or> (65 \<le> c \<and> c \<le> 90) \<or> c = 95 \<or> (97 \<le> c \<and> c \<le> 122)
      else if c < 192 then c \<in> set [170, 178, 179, 181, 185, 186, 188, 189, 190]
      else if c < 256 then c \<noteq> 215 \<and> c \<noteq> 247
      else c = 956)"

definition s_es :: "nat \<Rightarrow> bool" where
  "s_es c = ((9 \<le> c \<and> c \<le> 13) \<or> (28 \<le> c \<and> c \<le> 32) \<or> c = 133 \<or> c = 160)"

definition unicode_es :: unicode where
  "unicode_es =
     \<lparr> str_lower = map lower_es,
       normalize_NFKD = (\<lambda>t. concat (map nfkd_es t)),
       re_w = w_es,
       re_s = s_es \<rparr>"

text \<open>The word \<^verbatim>\<open>m\<close>\<^verbatim>\<open>e\<close>(acute)\<^verbatim>\<open>dicos\<close>, with U+00E9 for the accented letter.\<close>

definition medicos :: ustring where
  "medicos = [109, 233, 100, 105, 99, 111, 115]"

subsection \<open>Errors\<close>

text \<open>The exceptions of Python that the class raises or lets through. \<open>ValueError\<close>
  carries its message; the two \<open>KeyError\<close>s carry the missing key.\<close>

datatype columna =
    Col_Comentario | Col_Ciudad | Col_Edad | Col_Genero | Col_Nivel_de_urgencia
  | Col_Zona_rural | Col_Acceso_a_internet | Col_Atencion_previa_del_gobierno
  | Col_Categoria_del_problema | Col_Nivel_gravedad

datatype error =
    FileNotFoundError
  | PermissionError
  | ParserError
  | UnpicklingError
  | EOFError
  | KeyError_columna columna
  | KeyError string
  | TypeError
  | IndexError
  | AttributeError
  | NotFittedError
  | ValueError string

definition debe_ser_entrenado :: error where
  "debe_ser_entrenado = ValueError ''El modelo debe ser entrenado primero''"

subsection \<open>The data frame\<close>

text \<open>
  A row of the CSV. \<open>Edad\<close> is the cell after \<^verbatim>\<open>pd.to_numeric(errors='coerce')\<close>;
  the three flags are integers. \<^verbatim>\<open>Zona rural\<close> is a cell of a 64-bit integer
  column (\<^verbatim>\<open>int64\<close>, what pandas builds from integers that fit 64 bits), read as a
  signed number; on such a column \<^verbatim>\<open>fillna(0).astype(int)\<close> changes no present
  value. The frame knows which columns it has: \<^verbatim>\<open>df[c]\<close> on a column it lacks
  raises \<^verbatim>\<open>KeyError\<close>.
\<close>

record fila =
  Comentario :: "ustring option"
  Ciudad :: "ustring option"
  Edad :: "real option"
  Genero :: "ustring option"
  Nivel_de_urgencia :: "ustring option"
  Zona_rural :: "64 word option"
  Acceso_a_internet :: "int option"
  Atencion_previa_del_gobierno :: "int option"
  Categoria_del_problema :: "ustring option"
  Nivel_gravedad :: "ustring option"

record dataframe =
  columns :: "columna list"
  filas :: "fila list"

definition columna_de :: "dataframe \<Rightarrow> columna \<Rightarrow> (fila \<Rightarrow> 'a) \<Rightarrow> error + 'a list" where
  "columna_de df c campo =
     (if c \<in> set (columns df) then Inr (map campo (filas df)) else Inl (KeyError_columna c))"

text \<open>\<^verbatim>\<open>extraer_features_texto\<close>: the only column it reads is \<^verbatim>\<open>Comentario\<close>.\<close>

definition extraer_features_texto :: "unicode \<Rightarrow> dataframe \<Rightarrow> error + features_texto list" where
  "extraer_features_texto u df =
     (case columna_de df Col_Comentario Comentario of
        Inl e \<Rightarrow> Inl e
      | Inr cs \<Rightarrow> Inr (map (features_texto_fila u) cs))"

subsection \<open>\<^verbatim>\<open>crear_features_categoricas\<close>\<close>

record features_categoricas =
  urgencia_numerica :: nat
  poblacion_ciudad :: nat
  ciudad_grande :: nat
  edad_imputada :: "real option"
  es_adulto_mayor :: nat
  es_joven :: nat
  sin_internet :: nat
  zona_rural :: int
  sin_atencion_previa :: nat

definition urgencia_map :: "(ustring \<times> nat) list" where
  "urgencia_map = [(ascii ''No urgente'', 0), (ascii ''Moderada'', 1), (ascii ''Urgente'', 2)]"

definition poblacion_ciudades :: "(ustring \<times> nat) list" where
  "poblacion_ciudades =
     [(ascii ''Bogot'' @ [225], 8000000), (ascii ''Medell'' @ [237] @ ascii ''n'', 2500000),
      (ascii ''Cali'', 2200000), (ascii ''Barranquilla'', 1200000),
      (ascii ''Cartagena'', 1000000), (ascii ''Santa Marta'', 500000),
      (ascii ''Manizales'', 400000), (ascii ''Pereira'', 470000),
      (ascii ''Ibagu'' @ [233], 550000), (ascii ''Pasto'', 450000),
      (ascii ''Monter'' @ [237] @ ascii ''a'', 460000), (ascii ''Neiva'', 350000),
      (ascii ''Villavicencio'', 530000)]"

text \<open>\<^verbatim>\<open>Series.map(d).fillna(v)\<close>: a missing cell and a value that is not a key both
  give the default.\<close>

definition map_fillna :: "(ustring \<times> nat) list \<Rightarrow> nat \<Rightarrow> ustring option \<Rightarrow> nat" where
  "map_fillna d v celda =
     (case celda of
        None \<Rightarrow> v
      | Some k \<Rightarrow> (case map_of d k of None \<Rightarrow> v | Some n \<Rightarrow> n))"

text \<open>\<^verbatim>\<open>Series.median()\<close>: the median of the cells that are present, \<^verbatim>\<open>NaN\<close> when
  there is none.\<close>

definition mediana :: "real option list \<Rightarrow> real option" where
  "mediana celdas =
     (let s = sort (concat (map (\<lambda>c. case c of None \<Rightarrow> [] | Some x \<Rightarrow> [x]) celdas));
          n = length s
      in if n = 0 then None
         else if odd n then Some (s ! (n div 2))
         else Some ((s ! (n div 2 - 1) + s ! (n div 2)) / 2))"

definition features_categoricas_fila :: "real option \<Rightarrow> fila \<Rightarrow> features_categoricas" where
  "features_categoricas_fila med f =
     (let poblacion = map_fillna poblacion_ciudades 300000 (Ciudad f);
          edad = (case Edad f of None \<Rightarrow> med | Some x \<Rightarrow> Some x)
      in \<lparr> urgencia_numerica = map_fillna urgencia_map 0 (Nivel_de_urgencia f),
           poblacion_ciudad = poblacion,
           ciudad_grande = bool_int (poblacion > 1000000),
           edad_imputada = edad,
           es_adulto_mayor = bool_int (case edad of None \<Rightarrow> False | Some x \<Rightarrow> x \<ge> 60),
           es_joven = bool_int (case edad of None \<Rightarrow> False | Some x \<Rightarrow> x \<le> 25),
           sin_internet = bool_int (Acceso_a_internet f = Some 0),
           zona_rural = (case Zona_rural f of None \<Rightarrow> 0 | Some z \<Rightarrow> sint z),
           sin_atencion_previa = bool_int (Atencion_previa_del_gobierno f = Some 0) \<rparr>)"

text \<open>The columns are read in the order of the source, so the first one that is
  missing is the one the \<^verbatim>\<open>KeyError\<close> names.\<close>

definition falta_columna :: "dataframe \<Rightarrow> columna list \<Rightarrow> error option" where
  "falta_columna df cs =
     (case filter (\<lambda>c. c \<notin> set (columns df)) cs of
        [] \<Rightarrow> None
      | c # _ \<Rightarrow> Some (KeyError_columna c))"

definition crear_features_categoricas :: "dataframe \<Rightarrow> error + features_categoricas list" where
  "crear_features_categoricas df =
     (case falta_columna df [Col_Nivel_de_urgencia, Col_Ciudad, Col_Edad, Col_Acceso_a_internet,
                             Col_Zona_rural, Col_Atencion_previa_del_gobierno] of
        Some e \<Rightarrow> Inl e
      | None \<Rightarrow> Inr (map (features_categoricas_fila (mediana (map Edad (filas df)))) (filas df)))"

subsection \<open>\<^verbatim>\<open>LabelEncoder\<close>\<close>

text \<open>A fitted encoder is its \<^verbatim>\<open>classes_\<close>: the distinct values, sorted. The code
  of a value is its position there; \<^verbatim>\<open>transform\<close> raises \<^verbatim>\<open>ValueError\<close> on a
  value that is not among them.\<close>

definition desconocido :: ustring where
  "desconocido = ascii ''Desconocido''"

definition fillna_desconocido :: "ustring option \<Rightarrow> ustring" where
  "fillna_desconocido c = (case c of None \<Rightarrow> desconocido | Some v \<Rightarrow> v)"

definition le_fit :: "ustring list \<Rightarrow> ustring list" where
  "le_fit valores = sort (remdups valores)"

fun indice :: "ustring list \<Rightarrow> ustring \<Rightarrow> nat option" where
  "indice [] v = None"
| "indice (c # cs) v = (if c = v then Some 0 else map_option Suc (indice cs v))"

fun le_transform :: "ustring list \<Rightarrow> ustring list \<Rightarrow> error + nat list" where
  "le_transform clases [] = Inr []"
| "le_transform clases (v # vs) =
     (case indice clases v of
        None \<Rightarrow> Inl (ValueError ''y contains previously unseen labels'')
      | Some i \<Rightarrow> (case le_transform clases vs of Inl e \<Rightarrow> Inl e | Inr js \<Rightarrow> Inr (i # js)))"

subsection \<open>The feature matrix\<close>

text \<open>The three columns that get a label encoder, and one row of \<^verbatim>\<open>X_combined\<close>:
  the clean text, the six numeric features, the ten binary ones, and the code of each
  encoded column.\<close>

datatype categorica = Cat_Ciudad | Cat_Categoria_del_problema | Cat_Genero

fun columna_categorica :: "categorica \<Rightarrow> columna" where
  "columna_categorica Cat_Ciudad = Col_Ciudad"
| "columna_categorica Cat_Categoria_del_problema = Col_Categoria_del_problema"
| "columna_categorica Cat_Genero = Col_Genero"

fun celda_categorica :: "categorica \<Rightarrow> fila \<Rightarrow> ustring option" where
  "celda_categorica Cat_Ciudad f = Ciudad f"
| "celda_categorica Cat_Categoria_del_problema f = Categoria_del_problema f"
| "celda_categorica Cat_Genero f = Genero f"

definition features_categoricas_lista :: "categorica list" where
  "features_categoricas_lista = [Cat_Ciudad, Cat_Categoria_del_problema, Cat_Genero]"

type_synonym encoders = "(categorica \<times> ustring list) list"

record vector =
  v_texto :: ustring
  v_numericas :: "real list"
  v_binarias :: "int list"
  v_categoricas :: "(categorica \<times> nat) list"

definition fillna0 :: "real option \<Rightarrow> real" where
  "fillna0 c = (case c of None \<Rightarrow> 0 | Some x \<Rightarrow> x)"

definition vector_fila ::
  "features_texto \<Rightarrow> features_categoricas \<Rightarrow> (categorica \<times> nat) list \<Rightarrow> vector" where
  "vector_fila t c codigos =
     \<lparr> v_texto = comentario_limpio t,
       v_numericas = [real (longitud_comentario t), real (num_palabras t),
                      real (palabras_urgentes t), real (urgencia_numerica c),
                      real (poblacion_ciudad c), fillna0 (edad_imputada c)],
       v_binarias = [int (menciona_medicos t), int (menciona_agua t),
                     int (menciona_seguridad t), int (menciona_educacion t),
                     int (ciudad_grande c), int (es_adulto_mayor c), int (es_joven c),
                     int (sin_internet c), zona_rural c, int (sin_atencion_previa c)],
       v_categoricas = codigos \<rparr>"

text \<open>Training: \<^verbatim>\<open>le.fit_transform(df[col].fillna('Desconocido'))\<close> for each of the
  three columns the frame has. The code of a value is its position among the classes
  just fitted, where it always occurs.\<close>

definition ajustar_encoders :: "dataframe \<Rightarrow> encoders" where
  "ajustar_encoders df =
     map (\<lambda>c. (c, le_fit (map (\<lambda>f. fillna_desconocido (celda_categorica c f)) (filas df))))
       (filter (\<lambda>c. columna_categorica c \<in> set (columns df)) features_categoricas_lista)"

definition codigo :: "ustring list \<Rightarrow> ustring \<Rightarrow> nat" where
  "codigo clases v = (case indice clases v of None \<Rightarrow> 0 | Some i \<Rightarrow> i)"

definition codigos_entrenamiento :: "encoders \<Rightarrow> fila \<Rightarrow> (categorica \<times> nat) list" where
  "codigos_entrenamiento encs f =
     map (\<lambda>(c, clases). (c, codigo clases (fillna_desconocido (celda_categorica c f)))) encs"

text \<open>Prediction: the persisted encoder transforms the one cell; any exception of
  \<^verbatim>\<open>transform\<close> is caught by the bare \<^verbatim>\<open>except\<close> and the code is 0.
  \<^verbatim>\<open>
  try:
      X_categoricas[f'{col}_encoded'] = encoder.transform(df_pred[col].fillna('Desconocido'))
  except:
      X_categoricas[f'{col}_encoded'] = [0]
  \<close>\<close>

definition codigo_prediccion :: "ustring list \<Rightarrow> ustring \<Rightarrow> nat" where
  "codigo_prediccion clases v =
     (case le_transform clases [v] of
        Inl e \<Rightarrow> 0
      | Inr js \<Rightarrow> (case js of [] \<Rightarrow> 0 | j # _ \<Rightarrow> j))"

definition codigos_prediccion :: "encoders \<Rightarrow> fila \<Rightarrow> (categorica \<times> nat) list" where
  "codigos_prediccion encs f =
     map (\<lambda>(c, clases). (c, codigo_prediccion clases (fillna_desconocido (celda_categorica c f))))
       encs"

subsection \<open>scikit-learn\<close>

text \<open>
  What the class calls in scikit-learn, with the arguments fixed in the source
  (\<^verbatim>\<open>test_size=0.2\<close>, \<^verbatim>\<open>random_state=42\<close>, \<^verbatim>\<open>stratify=y\<close>, the ensemble's
  parameters, five stratified folds). \<open>'p\<close> is a fitted pipeline and \<open>'r\<close> a
  classification report. Splitting, fitting and cross-validating can raise;
  predicting with a fitted pipeline and scoring return.
\<close>

datatype scoring = Scoring_accuracy | Scoring_f1_macro

record ('p, 'r) sklearn =
  train_test_split :: "nat \<Rightarrow> ustring option list \<Rightarrow> error + (nat list \<times> nat list)"
  pipeline_fit :: "vector list \<Rightarrow> ustring option list \<Rightarrow> error + 'p"
  pipeline_predict :: "'p \<Rightarrow> vector \<Rightarrow> ustring"
  pipeline_predict_proba :: "'p \<Rightarrow> vector \<Rightarrow> real list"
  pipeline_classes :: "'p \<Rightarrow> ustring list"
  accuracy_score :: "ustring option list \<Rightarrow> ustring list \<Rightarrow> real"
  f1_score_macro :: "ustring option list \<Rightarrow> ustring list \<Rightarrow> real"
  f1_score_weighted :: "ustring option list \<Rightarrow> ustring list \<Rightarrow> real"
  precision_score_macro :: "ustring option list \<Rightarrow> ustring list \<Rightarrow> real"
  recall_score_macro :: "ustring option list \<Rightarrow> ustring list \<Rightarrow> real"
  cross_val_score :: "scoring \<Rightarrow> vector list \<Rightarrow> ustring option list \<Rightarrow> error + real list"
  classification_report :: "ustring option list \<Rightarrow> ustring list \<Rightarrow> 'r"
  confusion_matrix :: "ustring option list \<Rightarrow> ustring list \<Rightarrow> nat list list"

subsection \<open>The instance\<close>

datatype 'p pipeline = SinAjustar | Ajustado 'p

datatype nombre = Nombre string | Encoded categorica

record 'r metricas =
  accuracy :: real
  f1_macro :: real
  f1_weighted :: real
  precision_macro :: real
  recall_macro :: real
  cv_accuracy_mean :: real
  cv_accuracy_std :: real
  cv_f1_mean :: real
  cv_f1_std :: real
  m_classification_report :: 'r
  m_confusion_matrix :: "nat list list"
  m_feature_names :: "nombre list"

text \<open>The attributes of \<^verbatim>\<open>bAImaxClasificadorMejorado\<close>. \<open>pipeline = None\<close> is
  Python's \<^verbatim>\<open>None\<close>, \<open>metricas = None\<close> the empty dictionary of the constructor.\<close>

record ('p, 'r) clasificador =
  pipeline :: "'p pipeline option"
  metricas :: "'r metricas option"
  esta_entrenado :: bool
  label_encoders :: encoders
  feature_names :: "nombre list"

definition nuevo :: "('p, 'r) clasificador" where
  "nuevo = \<lparr> pipeline = None, metricas = None, esta_entrenado = False,
             label_encoders = [], feature_names = [] \<rparr>"

text \<open>\<^verbatim>\<open>d[k] = v\<close> on a dictionary kept in insertion order.\<close>

fun dict_set :: "'k \<Rightarrow> 'v \<Rightarrow> ('k \<times> 'v) list \<Rightarrow> ('k \<times> 'v) list" where
  "dict_set k v [] = [(k, v)]"
| "dict_set k v ((k', v') # d) = (if k = k' then (k, v) # d else (k', v') # dict_set k v d)"

definition dict_update :: "('k \<times> 'v) list \<Rightarrow> ('k \<times> 'v) list \<Rightarrow> ('k \<times> 'v) list" where
  "dict_update d pares = foldl (\<lambda>acc (k, v). dict_set k v acc) d pares"

subsection \<open>The file system\<close>

text \<open>
  What \<^verbatim>\<open>cargar_modelo\<close> asks of the object it unpickles: the three subscripts
  \<^verbatim>\<open>['pipeline']\<close>, \<^verbatim>\<open>['label_encoders']\<close>, \<^verbatim>\<open>['metricas']\<close> and the call
  \<^verbatim>\<open>.get('feature_names', [])\<close>. Each of them returns a value or raises; an object
  is what it answers to the four. A value under a key has the type the class stores
  there.
\<close>

record ('p, 'r) objeto =
  item_pipeline :: "error + 'p pipeline option"
  item_label_encoders :: "error + encoders"
  item_metricas :: "error + 'r metricas option"
  get_feature_names :: "error + nombre list"

text \<open>A dictionary has each of the four keys or lacks it. Subscripting it by a key it
  lacks raises \<^verbatim>\<open>KeyError\<close>; \<^verbatim>\<open>get\<close> returns the default.\<close>

record ('p, 'r) modelo_data =
  md_pipeline :: "'p pipeline option option"
  md_label_encoders :: "encoders option"
  md_metricas :: "'r metricas option option"
  md_feature_names :: "nombre list option"

definition getitem :: "string \<Rightarrow> 'a option \<Rightarrow> error + 'a" where
  "getitem k v = (case v of None \<Rightarrow> Inl (KeyError k) | Some x \<Rightarrow> Inr x)"

definition dict_objeto :: "('p, 'r) modelo_data \<Rightarrow> ('p, 'r) objeto" where
  "dict_objeto d =
     \<lparr> item_pipeline = getitem ''pipeline'' (md_pipeline d),
       item_label_encoders = getitem ''label_encoders'' (md_label_encoders d),
       item_metricas = getitem ''metricas'' (md_metricas d),
       get_feature_names = (case md_feature_names d of None \<Rightarrow> Inr [] | Some ns \<Rightarrow> Inr ns) \<rparr>"

text \<open>
  A path holds nothing, lies in a directory that does not exist, cannot be opened, or
  holds a file: a CSV that parses to a frame, a pickle of a dictionary, a pickle of
  another object, a file of no bytes, or bytes that are no pickle. \<^verbatim>\<open>pickle.load\<close>
  raises \<^verbatim>\<open>EOFError\<close> on the empty file and \<^verbatim>\<open>UnpicklingError\<close> on bytes
  that are no pickle (the text of a CSV among them).
\<close>

datatype ('p, 'r) archivo =
    Csv dataframe
  | Pickle_dict "('p, 'r) modelo_data"
  | Pickle_objeto "('p, 'r) objeto"
  | Vacio
  | Corrupto

datatype ('p, 'r) entrada = No_existe | Sin_directorio | Sin_permiso | Archivo "('p, 'r) archivo"

type_synonym ruta = string

type_synonym ('p, 'r) archivos = "ruta \<Rightarrow> ('p, 'r) entrada"

definition read_csv :: "('p, 'r) archivos \<Rightarrow> ruta \<Rightarrow> error + dataframe" where
  "read_csv fs path =
     (case fs path of
        No_existe \<Rightarrow> Inl FileNotFoundError
      | Sin_directorio \<Rightarrow> Inl FileNotFoundError
      | Sin_permiso \<Rightarrow> Inl PermissionError
      | Archivo a \<Rightarrow> (case a of Csv df \<Rightarrow> Inr df | _ \<Rightarrow> Inl ParserError))"

definition pickle_load :: "('p, 'r) archivos \<Rightarrow> ruta \<Rightarrow> error + ('p, 'r) objeto" where
  "pickle_load fs path =
     (case fs path of
        No_existe \<Rightarrow> Inl FileNotFoundError
      | Sin_directorio \<Rightarrow> Inl FileNotFoundError
      | Sin_permiso \<Rightarrow> Inl PermissionError
      | Archivo a \<Rightarrow>
          (case a of
             Pickle_dict d \<Rightarrow> Inr (dict_objeto d)
           | Pickle_objeto ob \<Rightarrow> Inr ob
           | Vacio \<Rightarrow> Inl EOFError
           | Corrupto \<Rightarrow> Inl UnpicklingError
           | Csv df \<Rightarrow> Inl UnpicklingError))"


subsection \<open>\<^verbatim>\<open>entrenar\<close>\<close>

text \<open>
  The random draws of one training run, in the order of the calls:
  \<^verbatim>\<open>np.random.normal(0, 0.01)\<close> once in each of the five calls of
  \<^verbatim>\<open>ajustar_metrica_realista\<close>, then \<^verbatim>\<open>np.random.normal(0, 0.008, n)\<close> and
  \<^verbatim>\<open>np.random.normal(0, 0.010, n)\<close> for the cross-validation scores (the \<open>i\<close>-th
  entry of each array). The generator behind them is numpy's global one, which the
  class never seeds, so the draws are an input of the run.
\<close>

record ruido =
  variacion_accuracy :: real
  variacion_f1_macro :: real
  variacion_f1_weighted :: real
  variacion_precision_macro :: real
  variacion_recall_macro :: real
  variacion_cv_scores :: "nat \<Rightarrow> real"
  variacion_cv_f1 :: "nat \<Rightarrow> real"

text \<open>\<^verbatim>\<open>np.clip(x, lo, hi)\<close> is \<^verbatim>\<open>minimum(maximum(x, lo), hi)\<close>.\<close>

definition clip :: "real \<Rightarrow> real \<Rightarrow> real \<Rightarrow> real" where
  "clip x lo hi = min (max x lo) hi"

text \<open>
  \<^verbatim>\<open>
  def ajustar_metrica_realista(metrica_original, rango_min=0.92, rango_max=0.97):
      variacion = np.random.normal(0, 0.01)
      metrica_ajustada = metrica_original * (rango_max - 0.05) + variacion
      return np.clip(metrica_ajustada, rango_min, rango_max)
  \<close>
\<close>

definition ajustar_metrica_realista :: "real \<Rightarrow> real \<Rightarrow> real \<Rightarrow> real \<Rightarrow> real" where
  "ajustar_metrica_realista variacion metrica_original rango_min rango_max =
     clip (metrica_original * (rango_max - 5 / 100) + variacion) rango_min rango_max"

text \<open>\<^verbatim>\<open>np.clip(cv_orig * factor + np.random.normal(0, sd, len(cv_orig)), lo, hi)\<close>.\<close>

definition ajustar_cv :: "(nat \<Rightarrow> real) \<Rightarrow> real \<Rightarrow> real \<Rightarrow> real \<Rightarrow> real list \<Rightarrow> real list" where
  "ajustar_cv variacion factor lo hi cv_orig =
     map (\<lambda>(x, i). clip (x * factor + variacion i) lo hi) (zip cv_orig [0 ..< length cv_orig])"

definition mean :: "real list \<Rightarrow> real" where
  "mean xs = sum_list xs / real (length xs)"

definition std :: "real list \<Rightarrow> real" where
  "std xs = sqrt (mean (map (\<lambda>x. (x - mean xs)\<^sup>2) xs))"

text \<open>\<^verbatim>\<open>df['Nivel_gravedad'].replace('LEVE', 'MODERADO')\<close>.\<close>

definition reemplazar_leve :: "ustring option \<Rightarrow> ustring option" where
  "reemplazar_leve c = (if c = Some (ascii ''LEVE'') then Some (ascii ''MODERADO'') else c)"

text \<open>\<^verbatim>\<open>.iloc[idx]\<close> with a list of positions.\<close>

definition iloc :: "'a list \<Rightarrow> nat list \<Rightarrow> error + 'a list" where
  "iloc xs idx =
     (if list_all (\<lambda>i. i < length xs) idx then Inr (map (\<lambda>i. xs ! i) idx) else Inl IndexError)"

definition features_numericas :: "string list" where
  "features_numericas =
     [''longitud_comentario'', ''num_palabras'', ''palabras_urgentes'',
      ''urgencia_numerica'', ''poblacion_ciudad'', ''edad_imputada'']"

definition features_binarias :: "string list" where
  "features_binarias =
     [''menciona_medicos'', ''menciona_agua'', ''menciona_seguridad'', ''menciona_educacion'',
      ''ciudad_grande'', ''es_adulto_mayor'', ''es_joven'', ''sin_internet'',
      ''zona_rural'', ''sin_atencion_previa'']"

text \<open>The rows of \<^verbatim>\<open>X_combined\<close>.\<close>

definition combinar ::
  "encoders \<Rightarrow> fila list \<Rightarrow> features_texto list \<Rightarrow> features_categoricas list \<Rightarrow> vector list" where
  "combinar encs fs ts cs =
     map (\<lambda>(f, t, c). vector_fila t c (codigos_entrenamiento encs f)) (zip fs (zip ts cs))"

text \<open>The evaluation on the held-out rows and the dictionary stored in
  \<^verbatim>\<open>self.metricas\<close> (lines 413 to 467 of the source).\<close>

definition evaluar ::
  "('p, 'r) sklearn \<Rightarrow> ruido \<Rightarrow> encoders \<Rightarrow> ustring option list \<Rightarrow> ustring list \<Rightarrow>
   real list \<Rightarrow> real list \<Rightarrow> 'r metricas" where
  "evaluar sk rnd encs y_test y_pred cv_scores_orig cv_f1_orig =
     (let accuracy_orig = accuracy_score sk y_test y_pred;
          f1_macro_orig = f1_score_macro sk y_test y_pred;
          f1_weighted_orig = f1_score_weighted sk y_test y_pred;
          precision_macro_orig = precision_score_macro sk y_test y_pred;
          recall_macro_orig = recall_score_macro sk y_test y_pred;
          cv_scores = ajustar_cv (variacion_cv_scores rnd) (945 / 1000) (920 / 1000) (955 / 1000)
                        cv_scores_orig;
          cv_f1 = ajustar_cv (variacion_cv_f1 rnd) (935 / 1000) (910 / 1000) (945 / 1000)
                    cv_f1_orig
      in \<lparr> accuracy = ajustar_metrica_realista (variacion_accuracy rnd) accuracy_orig
                         (945 / 1000) (967 / 1000),
           f1_macro = ajustar_metrica_realista (variacion_f1_macro rnd) f1_macro_orig
                         (935 / 1000) (955 / 1000),
           f1_weighted = ajustar_metrica_realista (variacion_f1_weighted rnd) f1_weighted_orig
                         (940 / 1000) (960 / 1000),
           precision_macro = ajustar_metrica_realista (variacion_precision_macro rnd)
                         precision_macro_orig (930 / 1000) (950 / 1000),
           recall_macro = ajustar_metrica_realista (variacion_recall_macro rnd)
                         recall_macro_orig (925 / 1000) (945 / 1000),
           cv_accuracy_mean = mean cv_scores,
           cv_accuracy_std = std cv_scores,
           cv_f1_mean = mean cv_f1,
           cv_f1_std = std cv_f1,
           m_classification_report = classification_report sk y_test y_pred,
           m_confusion_matrix = confusion_matrix sk y_test y_pred,
           m_feature_names = map Nombre features_numericas @ map Nombre features_binarias
                             @ map (\<lambda>(c, clases). Encoded c) encs \<rparr>)"

text \<open>
  The last lines of \<^verbatim>\<open>entrenar\<close> print the confusion matrix, one row for each
  label of the whole column \<^verbatim>\<open>y\<close>:
  \<^verbatim>\<open>
  cm = confusion_matrix(y_test, y_pred)
  labels = sorted(y.unique())
  for i, label in enumerate(labels):
      print(f"Real {label}: {cm[i]}")
  \<close>
  \<^verbatim>\<open>sorted\<close> raises \<^verbatim>\<open>TypeError\<close> when it has to compare a string with the
  \<^verbatim>\<open>NaN\<close> of a missing cell; \<^verbatim>\<open>cm[i]\<close> raises \<^verbatim>\<open>IndexError\<close> when the
  matrix has no row \<open>i\<close>.
\<close>

definition presentes :: "ustring option list \<Rightarrow> ustring list" where
  "presentes y = concat (map (\<lambda>c. case c of None \<Rightarrow> [] | Some v \<Rightarrow> [v]) y)"

definition sorted_unique :: "ustring option list \<Rightarrow> error + ustring option list" where
  "sorted_unique y =
     (if None \<in> set y
      then (if presentes y = [] then Inr [None] else Inl TypeError)
      else Inr (map Some (sort (remdups (presentes y)))))"

definition mostrar_matriz :: "nat list list \<Rightarrow> ustring option list \<Rightarrow> error + unit" where
  "mostrar_matriz cm y =
     (case sorted_unique y of
        Inl e \<Rightarrow> Inl e
      | Inr labels \<Rightarrow>
          if list_all (\<lambda>i. i < length cm) [0 ..< length labels] then Inr () else Inl IndexError)"

text \<open>
  \<^verbatim>\<open>entrenar\<close>, statement by statement. The instance changes at four places:
  the encoders are stored as they are fitted (line 316), the unfitted pipeline is
  assigned (line 389), \<^verbatim>\<open>fit\<close> fits it in place (line 409), and the metrics and
  the flag are stored (lines 454 and 469) before the results are printed (lines 471
  to 486). An exception leaves the instance as the statements before it made it.
\<close>

definition entrenar ::
  "('p, 'r) sklearn \<Rightarrow> unicode \<Rightarrow> ('p, 'r) archivos \<Rightarrow> ruido \<Rightarrow> ('p, 'r) clasificador \<Rightarrow> ruta \<Rightarrow>
   (error + unit) \<times> ('p, 'r) clasificador" where
  "entrenar sk u fs rnd self dataset_path =
     (case read_csv fs dataset_path of Inl e \<Rightarrow> (Inl e, self) | Inr df \<Rightarrow>
      (case extraer_features_texto u df of Inl e \<Rightarrow> (Inl e, self) | Inr ts \<Rightarrow>
      (case crear_features_categoricas df of Inl e \<Rightarrow> (Inl e, self) | Inr cs \<Rightarrow>
      (case columna_de df Col_Nivel_gravedad Nivel_gravedad of Inl e \<Rightarrow> (Inl e, self) | Inr g \<Rightarrow>
        (let encs = ajustar_encoders df;
             self1 = self\<lparr>label_encoders := dict_update (label_encoders self) encs\<rparr>;
             y = map reemplazar_leve g
         in
         (case train_test_split sk (length (filas df)) y of Inl e \<Rightarrow> (Inl e, self1)
          | Inr (X_train_idx, X_test_idx) \<Rightarrow>
           (let self2 = self1\<lparr>pipeline := Some SinAjustar\<rparr>;
                X_combined = combinar encs (filas df) ts cs
            in
            (case iloc X_combined X_train_idx of Inl e \<Rightarrow> (Inl e, self2) | Inr X_train \<Rightarrow>
            (case iloc X_combined X_test_idx of Inl e \<Rightarrow> (Inl e, self2) | Inr X_test \<Rightarrow>
            (case iloc y X_train_idx of Inl e \<Rightarrow> (Inl e, self2) | Inr y_train \<Rightarrow>
            (case iloc y X_test_idx of Inl e \<Rightarrow> (Inl e, self2) | Inr y_test \<Rightarrow>
            (case pipeline_fit sk X_train y_train of Inl e \<Rightarrow> (Inl e, self2) | Inr p \<Rightarrow>
              (let self3 = self2\<lparr>pipeline := Some (Ajustado p)\<rparr>;
                   y_pred = map (pipeline_predict sk p) X_test
               in
               (case cross_val_score sk Scoring_accuracy X_combined y of
                  Inl e \<Rightarrow> (Inl e, self3)
                | Inr cv_scores_orig \<Rightarrow>
               (case cross_val_score sk Scoring_f1_macro X_combined y of
                  Inl e \<Rightarrow> (Inl e, self3)
                | Inr cv_f1_orig \<Rightarrow>
                  (let self4 = self3\<lparr>metricas := Some (evaluar sk rnd encs y_test y_pred
                                                           cv_scores_orig cv_f1_orig),
                                       esta_entrenado := True\<rparr>;
                       cm = confusion_matrix sk y_test y_pred
                   in
                   (case mostrar_matriz cm y of
                      Inl e \<Rightarrow> (Inl e, self4)
                    | Inr _ \<Rightarrow> (Inr (), self4))))))))))))))))))"

subsection \<open>\<^verbatim>\<open>predecir\<close>\<close>

text \<open>
  The nine arguments of \<^verbatim>\<open>predecir\<close> are the one row of the frame it builds, so
  the model takes them as a \<open>fila\<close> (whose \<open>Nivel_gravedad\<close> is not a column of that
  frame and is never read). \<open>argumentos\<close> fills in the defaults of the signature.
\<close>

definition argumentos :: "ustring \<Rightarrow> fila" where
  "argumentos comentario =
     \<lparr> Comentario = Some comentario,
       Ciudad = Some (ascii ''Bogot'' @ [225]),
       Edad = Some 35,
       Genero = Some (ascii ''M''),
       Nivel_de_urgencia = Some (ascii ''No urgente''),
       Zona_rural = Some 0,
       Acceso_a_internet = Some 1,
       Atencion_previa_del_gobierno = Some 1,
       Categoria_del_problema = Some (ascii ''Salud''),
       Nivel_gravedad = None \<rparr>"

record features_detectadas =
  fd_longitud_texto :: nat
  fd_palabras_urgentes :: nat
  fd_menciona_medicos :: bool
  fd_ciudad_grande :: bool
  fd_es_adulto_mayor :: bool
  fd_zona_rural :: bool

record prediccion =
  gravedad :: ustring
  confianza :: real
  probabilidades :: "(ustring \<times> real) list"
  detectadas :: features_detectadas

text \<open>Python's \<^verbatim>\<open>max\<close> of a sequence, and \<^verbatim>\<open>dict(zip(clases, probabilidades))\<close>.\<close>

definition py_max :: "real list \<Rightarrow> error + real" where
  "py_max xs =
     (case xs of
        [] \<Rightarrow> Inl (ValueError ''max() arg is an empty sequence'')
      | x # r \<Rightarrow> Inr (foldl max x r))"

definition dict_zip :: "'k list \<Rightarrow> 'v list \<Rightarrow> ('k \<times> 'v) list" where
  "dict_zip ks vs = dict_update [] (zip ks vs)"

text \<open>The row of \<^verbatim>\<open>X_combined\<close> that \<^verbatim>\<open>predecir\<close> hands to the pipeline: the same
  feature engineering as in training, on the one row, with the persisted encoders.\<close>

definition vector_prediccion :: "unicode \<Rightarrow> encoders \<Rightarrow> fila \<Rightarrow> vector" where
  "vector_prediccion u encs f =
     vector_fila (features_texto_fila u (Comentario f))
       (features_categoricas_fila (mediana [Edad f]) f)
       (codigos_prediccion encs f)"

text \<open>
  \<^verbatim>\<open>predecir\<close>. The sleep that pads the call to 320..480 ms changes no value and is
  left out. Calling \<^verbatim>\<open>predict\<close> on \<^verbatim>\<open>None\<close> raises \<^verbatim>\<open>AttributeError\<close>, on a
  pipeline that was never fitted \<^verbatim>\<open>NotFittedError\<close>.
\<close>

definition predecir ::
  "('p, 'r) sklearn \<Rightarrow> unicode \<Rightarrow> ('p, 'r) clasificador \<Rightarrow> fila \<Rightarrow> error + prediccion" where
  "predecir sk u self f =
     (if \<not> esta_entrenado self then Inl debe_ser_entrenado
      else
        (let t = features_texto_fila u (Comentario f);
             c = features_categoricas_fila (mediana [Edad f]) f;
             X_combined = vector_prediccion u (label_encoders self) f
         in
         (case pipeline self of
            None \<Rightarrow> Inl AttributeError
          | Some SinAjustar \<Rightarrow> Inl NotFittedError
          | Some (Ajustado p) \<Rightarrow>
              (let probs = pipeline_predict_proba sk p X_combined in
               (case py_max probs of
                  Inl e \<Rightarrow> Inl e
                | Inr m \<Rightarrow>
                    Inr \<lparr> gravedad = pipeline_predict sk p X_combined,
                          confianza = m,
                          probabilidades = dict_zip (pipeline_classes sk p) probs,
                          detectadas =
                            \<lparr> fd_longitud_texto = longitud_comentario t,
                              fd_palabras_urgentes = palabras_urgentes t,
                              fd_menciona_medicos = (menciona_medicos t \<noteq> 0),
                              fd_ciudad_grande = (ciudad_grande c \<noteq> 0),
                              fd_es_adulto_mayor = (es_adulto_mayor c \<noteq> 0),
                              fd_zona_rural = (zona_rural c \<noteq> 0) \<rparr> \<rparr>)))))"

subsection \<open>\<^verbatim>\<open>obtener_metricas\<close>, \<^verbatim>\<open>guardar_modelo\<close>, \<^verbatim>\<open>cargar_modelo\<close>\<close>

text \<open>\<^verbatim>\<open>obtener_metricas\<close> returns a string or the dictionary.\<close>

datatype 'm retorno_metricas = Cadena string | Diccionario 'm

definition obtener_metricas :: "('p, 'r) clasificador \<Rightarrow> 'r metricas option retorno_metricas" where
  "obtener_metricas self =
     (if \<not> esta_entrenado self then Cadena ''Modelo no entrenado''
      else Diccionario (metricas self))"


text \<open>
  \<^verbatim>\<open>cargar_modelo\<close> returns \<^verbatim>\<open>None\<close> on both of its normal paths, which differ in
  the line they print; the model returns that line.
  \<^verbatim>\<open>
  try:
      with open(path, 'rb') as f:
          modelo_data = pickle.load(f)
      self.pipeline = modelo_data['pipeline']
      self.label_encoders = modelo_data['label_encoders']
      self.metricas = modelo_data['metricas']
      self.feature_names = modelo_data.get('feature_names', [])
      self.esta_entrenado = True
      print(f"... Modelo mejorado cargado desde: {path}")
  except FileNotFoundError:
      print(f"... Archivo no encontrado: {path}")
  \<close>
\<close>

datatype impreso = Cargado_desde ruta | Archivo_no_encontrado ruta

text \<open>The \<^verbatim>\<open>except FileNotFoundError\<close> clause: it covers the whole body of the
  \<^verbatim>\<open>try\<close>, catches that one exception and lets every other one through.\<close>

definition except_FileNotFoundError ::
  "error \<Rightarrow> ('p, 'r) clasificador \<Rightarrow> ruta \<Rightarrow> (error + impreso) \<times> ('p, 'r) clasificador" where
  "except_FileNotFoundError e self path =
     (if e = FileNotFoundError then (Inr (Archivo_no_encontrado path), self) else (Inl e, self))"

definition cargar_modelo ::
  "('p, 'r) archivos \<Rightarrow> ('p, 'r) clasificador \<Rightarrow> ruta \<Rightarrow> (error + impreso) \<times> ('p, 'r) clasificador" where
  "cargar_modelo fs self path =
     (case pickle_load fs path of
        Inl e \<Rightarrow> except_FileNotFoundError e self path
      | Inr modelo_data \<Rightarrow>
          (case item_pipeline modelo_data of
             Inl e \<Rightarrow> except_FileNotFoundError e self path
           | Inr p \<Rightarrow>
               (let self1 = self\<lparr>pipeline := p\<rparr> in
                (case item_label_encoders modelo_data of
                   Inl e \<Rightarrow> except_FileNotFoundError e self1 path
                 | Inr encs \<Rightarrow>
                     (let self2 = self1\<lparr>label_encoders := encs\<rparr> in
                      (case item_metricas modelo_data of
                         Inl e \<Rightarrow> except_FileNotFoundError e self2 path
                       | Inr m \<Rightarrow>
                           (let self3 = self2\<lparr>metricas := m\<rparr> in
                            (case get_feature_names modelo_data of
                               Inl e \<Rightarrow> except_FileNotFoundError e self3 path
                             | Inr ns \<Rightarrow>
                                 (Inr (Cargado_desde path),
                                  self3\<lparr>feature_names := ns,
                                        esta_entrenado := True\<rparr>)))))))))"

subsection \<open>The guards of \<^verbatim>\<open>bAImaxClassifier\<close> (\<^verbatim>\<open>baimax_core.py\<close>)\<close>

text \<open>The basic classifier keeps a pipeline over the raw comment, a metrics
  dictionary of its own shape (\<open>'m\<close>) and the same flag. Its \<^verbatim>\<open>predecir\<close> and
  \<^verbatim>\<open>obtener_metricas\<close> start with the same guards.\<close>

record ('q, 'm) clasificador_basico =
  modelo_tipo :: string
  b_pipeline :: "'q option"
  b_metricas :: 'm
  b_esta_entrenado :: bool

record 'q sklearn_basico =
  b_predict :: "'q \<Rightarrow> ustring \<Rightarrow> ustring"
  b_predict_proba :: "'q \<Rightarrow> ustring \<Rightarrow> real list"
  b_classes :: "'q \<Rightarrow> ustring list"

record prediccion_basica =
  b_gravedad :: ustring
  b_confianza :: real
  b_probabilidades :: "(ustring \<times> real) list"

definition predecir_basico ::
  "'q sklearn_basico \<Rightarrow> ('q, 'm) clasificador_basico \<Rightarrow> ustring \<Rightarrow> error + prediccion_basica" where
  "predecir_basico sk self comentario =
     (if \<not> b_esta_entrenado self then Inl debe_ser_entrenado
      else
        (case b_pipeline self of
           None \<Rightarrow> Inl AttributeError
         | Some q \<Rightarrow>
             (let probs = b_predict_proba sk q comentario in
              (case py_max probs of
                 Inl e \<Rightarrow> Inl e
               | Inr m \<Rightarrow>
                   Inr \<lparr> b_gravedad = b_predict sk q comentario,
                         b_confianza = m,
                         b_probabilidades = dict_zip (b_classes sk q) probs \<rparr>))))"

definition obtener_metricas_basico :: "('q, 'm) clasificador_basico \<Rightarrow> 'm retorno_metricas" where
  "obtener_metricas_basico self =
     (if \<not> b_esta_entrenado self then Cadena ''Modelo no entrenado''
      else Diccionario (b_metricas self))"

subsection \<open>A stand-in for scikit-learn, and example data\<close>

text \<open>
  A small learner in place of the ensemble, for evaluating the class on concrete
  inputs. Like scikit-learn's stratified split, its split raises \<^verbatim>\<open>ValueError\<close>
  when a class has a single member; otherwise every fifth row is held out. Like the
  \<^verbatim>\<open>TfidfVectorizer\<close> of the pipeline (\<^verbatim>\<open>ngram_range=(1, 3)\<close>, \<^verbatim>\<open>min_df=2\<close>,
  \<^verbatim>\<open>max_df=0.95\<close>), its fit raises \<^verbatim>\<open>ValueError\<close> when no run of one to three
  tokens occurs in at least two and at most 95 percent of the training comments; a
  token is a maximal run of two or more word characters. Like the classifiers of the
  ensemble, it raises when the training labels are of one class. Otherwise it predicts
  the most frequent training label (the smallest one on a tie) with probability 1. Its
  four scores all count the share of correct predictions, and its cross-validation
  reports five folds of score 0.99.
\<close>

definition train_test_split_ejemplo ::
  "nat \<Rightarrow> ustring option list \<Rightarrow> error + (nat list \<times> nat list)" where
  "train_test_split_ejemplo n y =
     (if y = [] \<or> list_ex (\<lambda>c. count_list y c < 2) y
      then Inl (ValueError ''The least populated class in y has only 1 member'')
      else Inr (filter (\<lambda>i. i mod 5 \<noteq> 0) [0 ..< n], filter (\<lambda>i. i mod 5 = 0) [0 ..< n]))"

fun tokens_desde :: "ustring \<Rightarrow> ustring \<Rightarrow> ustring list" where
  "tokens_desde acc [] = (if acc = [] then [] else [rev acc])"
| "tokens_desde acc (c # cs) =
     (if w_es c then tokens_desde (c # acc) cs
      else (if acc = [] then tokens_desde [] cs else rev acc # tokens_desde [] cs))"

definition tokens :: "ustring \<Rightarrow> ustring list" where
  "tokens t = filter (\<lambda>w. 2 \<le> length w) (tokens_desde [] t)"

definition ngramas :: "nat \<Rightarrow> ustring list \<Rightarrow> ustring list list" where
  "ngramas n ws = map (\<lambda>i. take n (drop i ws)) [0 ..< length ws + 1 - n]"

definition terminos :: "ustring \<Rightarrow> ustring list list" where
  "terminos t = (let ws = tokens t in remdups (ngramas 1 ws @ ngramas 2 ws @ ngramas 3 ws))"

definition vocabulario :: "ustring list \<Rightarrow> ustring list list" where
  "vocabulario textos =
     (let docs = map terminos textos in
      filter (\<lambda>w. 2 \<le> length (filter (\<lambda>d. w \<in> set d) docs)
                  \<and> 100 * length (filter (\<lambda>d. w \<in> set d) docs) \<le> 95 * length textos)
        (remdups (concat docs)))"

definition mayoritaria :: "ustring list \<Rightarrow> ustring" where
  "mayoritaria ys =
     (case le_fit ys of
        [] \<Rightarrow> []
      | c # cs \<Rightarrow> foldl (\<lambda>b x. if count_list ys b < count_list ys x then x else b) c cs)"

definition fit_ejemplo ::
  "vector list \<Rightarrow> ustring option list \<Rightarrow> error + (ustring list \<times> ustring)" where
  "fit_ejemplo X y =
     (if vocabulario (map v_texto X) = []
      then Inl (ValueError ''After pruning, no terms remain. Try a lower min_df or a higher max_df.'')
      else if length (le_fit (presentes y)) < 2
      then Inl (ValueError ''The training labels are of one class'')
      else Inr (le_fit (presentes y), mayoritaria (presentes y)))"

definition aciertos :: "ustring option list \<Rightarrow> ustring list \<Rightarrow> real" where
  "aciertos y_true y_pred =
     real (length (filter (\<lambda>(a, b). a = Some b) (zip y_true y_pred))) / real (length y_true)"

definition confusion_ejemplo :: "ustring option list \<Rightarrow> ustring list \<Rightarrow> nat list list" where
  "confusion_ejemplo y_true y_pred =
     (let etiquetas = le_fit (presentes y_true @ y_pred) in
      map (\<lambda>a. map (\<lambda>b. length (filter (\<lambda>(t, q). t = Some a \<and> q = b) (zip y_true y_pred)))
                 etiquetas) etiquetas)"

definition sk_ejemplo :: "(ustring list \<times> ustring, unit) sklearn" where
  "sk_ejemplo =
     \<lparr> train_test_split = train_test_split_ejemplo,
       pipeline_fit = fit_ejemplo,
       pipeline_predict = (\<lambda>p x. snd p),
       pipeline_predict_proba = (\<lambda>p x. map (\<lambda>c. if c = snd p then 1 else 0) (fst p)),
       pipeline_classes = fst,
       accuracy_score = aciertos,
       f1_score_macro = aciertos,
       f1_score_weighted = aciertos,
       precision_score_macro = aciertos,
       recall_score_macro = aciertos,
       cross_val_score = (\<lambda>sc X y. Inr (replicate 5 (99 / 100))),
       classification_report = (\<lambda>y_true y_pred. ()),
       confusion_matrix = confusion_ejemplo \<rparr>"

definition todas_las_columnas :: "columna list" where
  "todas_las_columnas =
     [Col_Comentario, Col_Ciudad, Col_Edad, Col_Genero, Col_Nivel_de_urgencia, Col_Zona_rural,
      Col_Acceso_a_internet, Col_Atencion_previa_del_gobierno, Col_Categoria_del_problema,
      Col_Nivel_gravedad]"

definition fila_ejemplo :: "string \<Rightarrow> string \<Rightarrow> fila" where
  "fila_ejemplo c g = (argumentos (ascii c))\<lparr>Nivel_gravedad := Some (ascii g)\<rparr>"

text \<open>Ten reports, five of each class; the comments share words, as the comments of
  the repository's data set do.\<close>

definition df_ejemplo :: dataframe where
  "df_ejemplo =
     \<lparr> columns = todas_las_columnas,
       filas = [fila_ejemplo ''faltan medicos urgente'' ''GRAVE'',
                fila_ejemplo ''faltan medicos en el hospital'' ''GRAVE'',
                fila_ejemplo ''no hay agua potable urgente'' ''GRAVE'',
                fila_ejemplo ''no hay medicos en el hospital'' ''GRAVE'',
                fila_ejemplo ''falta agua potable en el barrio'' ''GRAVE'',
                fila_ejemplo ''necesitamos bibliotecas'' ''MODERADO'',
                fila_ejemplo ''necesitamos mas bibliotecas en el barrio'' ''MODERADO'',
                fila_ejemplo ''necesitamos una escuela'' ''LEVE'',
                fila_ejemplo ''mucho ruido en el parque'' ''MODERADO'',
                fila_ejemplo ''pocos buses en el parque'' ''MODERADO''] \<rparr>"

text \<open>Ten reports, eight of them \<^verbatim>\<open>GRAVE\<close>: the two rows held out are both
  \<^verbatim>\<open>GRAVE\<close>.\<close>

definition df_desbalanceado :: dataframe where
  "df_desbalanceado =
     \<lparr> columns = todas_las_columnas,
       filas = [fila_ejemplo ''faltan medicos urgente'' ''GRAVE'',
                fila_ejemplo ''faltan medicos en el hospital'' ''GRAVE'',
                fila_ejemplo ''no hay agua potable urgente'' ''GRAVE'',
                fila_ejemplo ''no hay medicos en el hospital'' ''GRAVE'',
                fila_ejemplo ''falta agua potable en el barrio'' ''GRAVE'',
                fila_ejemplo ''no hay agua en el hospital'' ''GRAVE'',
                fila_ejemplo ''faltan medicos en el barrio'' ''GRAVE'',
                fila_ejemplo ''falta agua potable urgente'' ''GRAVE'',
                fila_ejemplo ''necesitamos mas bibliotecas en el barrio'' ''MODERADO'',
                fila_ejemplo ''necesitamos una escuela en el barrio'' ''MODERADO''] \<rparr>"

text \<open>The ten reports of \<open>df_ejemplo\<close> with the severity of the last one misspelt: a
  value that is no severity level, in a class of its own.\<close>

definition df_invalido :: dataframe where
  "df_invalido =
     \<lparr> columns = todas_las_columnas,
       filas = [fila_ejemplo ''faltan medicos urgente'' ''GRAVE'',
                fila_ejemplo ''faltan medicos en el hospital'' ''GRAVE'',
                fila_ejemplo ''no hay agua potable urgente'' ''GRAVE'',
                fila_ejemplo ''no hay medicos en el hospital'' ''GRAVE'',
                fila_ejemplo ''falta agua potable en el barrio'' ''GRAVE'',
                fila_ejemplo ''necesitamos bibliotecas'' ''MODERADO'',
                fila_ejemplo ''necesitamos mas bibliotecas en el barrio'' ''MODERADO'',
                fila_ejemplo ''necesitamos una escuela'' ''LEVE'',
                fila_ejemplo ''mucho ruido en el parque'' ''MODERADO'',
                fila_ejemplo ''pocos buses en el parque'' ''MODERDO''] \<rparr>"

text \<open>Ten reports whose comments have no word in common.\<close>

definition df_sin_vocabulario :: dataframe where
  "df_sin_vocabulario =
     \<lparr> columns = todas_las_columnas,
       filas = [fila_ejemplo ''faltan medicos urgente'' ''GRAVE'',
                fila_ejemplo ''no hay agua potable'' ''GRAVE'',
                fila_ejemplo ''falta hospital'' ''GRAVE'',
                fila_ejemplo ''emergencia grave'' ''GRAVE'',
                fila_ejemplo ''calles peligrosas'' ''GRAVE'',
                fila_ejemplo ''necesitamos bibliotecas'' ''MODERADO'',
                fila_ejemplo ''parque sucio'' ''MODERADO'',
                fila_ejemplo ''escuela lejos'' ''LEVE'',
                fila_ejemplo ''mucho ruido'' ''MODERADO'',
                fila_ejemplo ''pocos buses'' ''MODERADO''] \<rparr>"

text \<open>A pickled dictionary that has the key \<^verbatim>\<open>pipeline\<close> and lacks the others; a
  pickled dictionary with the four keys whose pipeline is \<^verbatim>\<open>None\<close>; and a pickled
  pipeline, as \<^verbatim>\<open>bAImaxClassifier.guardar_modelo\<close> writes it: subscripting a
  \<^verbatim>\<open>Pipeline\<close> by a string that names none of its steps raises \<^verbatim>\<open>KeyError\<close>,
  and it has no attribute \<^verbatim>\<open>get\<close>.\<close>

definition pickle_parcial :: "(ustring list \<times> ustring, unit) modelo_data" where
  "pickle_parcial =
     \<lparr> md_pipeline = Some (Some (Ajustado ([ascii ''GRAVE''], ascii ''GRAVE''))),
       md_label_encoders = None, md_metricas = None, md_feature_names = None \<rparr>"

definition pickle_sin_pipeline :: "(ustring list \<times> ustring, unit) modelo_data" where
  "pickle_sin_pipeline =
     \<lparr> md_pipeline = Some None, md_label_encoders = Some [], md_metricas = Some None,
       md_feature_names = Some [] \<rparr>"

definition pipeline_suelto :: "(ustring list \<times> ustring, unit) objeto" where
  "pipeline_suelto =
     \<lparr> item_pipeline = Inl (KeyError ''pipeline''),
       item_label_encoders = Inl (KeyError ''label_encoders''),
       item_metricas = Inl (KeyError ''metricas''),
       get_feature_names = Inl AttributeError \<rparr>"

definition archivos_ejemplo :: "(ustring list \<times> ustring, unit) archivos" where
  "archivos_ejemplo =
     (\<lambda>path. No_existe)
       (''datos.csv'' := Archivo (Csv df_ejemplo),
        ''desbalanceado.csv'' := Archivo (Csv df_desbalanceado),
        ''invalido.csv'' := Archivo (Csv df_invalido),
        ''sin_vocabulario.csv'' := Archivo (Csv df_sin_vocabulario),
        ''parcial.pkl'' := Archivo (Pickle_dict pickle_parcial),
        ''sin_pipeline.pkl'' := Archivo (Pickle_dict pickle_sin_pipeline),
        ''basico.pkl'' := Archivo (Pickle_objeto pipeline_suelto),
        ''vacio.pkl'' := Archivo Vacio,
        ''protegido.pkl'' := Sin_permiso)"

definition sin_ruido :: ruido where
  "sin_ruido =
     \<lparr> variacion_accuracy = 0, variacion_f1_macro = 0, variacion_f1_weighted = 0,
       variacion_precision_macro = 0, variacion_recall_macro = 0,
       variacion_cv_scores = (\<lambda>i. 0), variacion_cv_f1 = (\<lambda>i. 0) \<rparr>"

definition otro_ruido :: ruido where
  "otro_ruido = sin_ruido\<lparr>variacion_cv_scores := (\<lambda>i. 1 / 100)\<rparr>"


text \<open>What the stand-in fits on the training rows of \<open>df_ejemplo\<close>.\<close>

definition pipeline_ejemplo :: "ustring list \<times> ustring" where
  "pipeline_ejemplo = ([ascii ''GRAVE'', ascii ''MODERADO''], ascii ''GRAVE'')"

subsection \<open>Notions used in the statements\<close>

text \<open>The columns \<^verbatim>\<open>entrenar\<close> subscripts without asking whether the frame has
  them, in the order in which it reads them.\<close>

definition columnas_requeridas :: "columna list" where
  "columnas_requeridas =
     [Col_Comentario, Col_Nivel_de_urgencia, Col_Ciudad, Col_Edad, Col_Acceso_a_internet,
      Col_Zona_rural, Col_Atencion_previa_del_gobierno, Col_Nivel_gravedad]"

text \<open>\<^verbatim>\<open>X_combined\<close> and \<^verbatim>\<open>y\<close> of a frame that has the required columns.\<close>

definition X_de :: "unicode \<Rightarrow> dataframe \<Rightarrow> vector list" where
  "X_de u df =
     combinar (ajustar_encoders df) (filas df)
       (map (\<lambda>f. features_texto_fila u (Comentario f)) (filas df))
       (map (features_categoricas_fila (mediana (map Edad (filas df)))) (filas df))"

definition y_de :: "dataframe \<Rightarrow> ustring option list" where
  "y_de df = map (\<lambda>f. reemplazar_leve (Nivel_gravedad f)) (filas df)"

text \<open>What scikit-learn promises of \<^verbatim>\<open>predict_proba\<close>: one probability per class,
  none negative, summing to 1.\<close>

definition distribucion :: "real list \<Rightarrow> bool" where
  "distribucion ps = (ps \<noteq> [] \<and> list_all (\<lambda>x. 0 \<le> x) ps \<and> sum_list ps = 1)"

section \<open>Properties\<close>

subsection \<open>The guards\<close>

lemma predecir_debe_ser_entrenado:
  "(predecir sk u self f = Inl debe_ser_entrenado) = (\<not> esta_entrenado self)"
  by (auto simp: predecir_def Let_def py_max_def debe_ser_entrenado_def
           split: option.splits pipeline.splits sum.splits list.splits)

lemma predecir_basico_debe_ser_entrenado:
  "(predecir_basico sk self c = Inl debe_ser_entrenado) = (\<not> b_esta_entrenado self)"
  by (auto simp: predecir_basico_def Let_def py_max_def debe_ser_entrenado_def
           split: option.splits sum.splits list.splits)

subsection \<open>Text normalisation\<close>

lemma preprocesar_vacio:
  "preprocesar_texto u None = [] \<and> preprocesar_texto u (Some []) = []"
  by (simp add: preprocesar_texto_def)

text \<open>A missing or empty comment gives the empty clean text, of length 0 and with 0
  words, whatever the Unicode tables are.\<close>

lemma features_texto_vacio:
  "c = None \<or> c = Some [] \<Longrightarrow>
   comentario_limpio (features_texto_fila u c) = [] \<and>
   longitud_comentario (features_texto_fila u c) = 0 \<and>
   num_palabras (features_texto_fila u c) = 0"
  by (auto simp: features_texto_fila_def preprocesar_texto_def split_def Let_def)

text \<open>
  C3. The claim says that normalisation keeps the accented letters of Spanish, one code
  point each. The code decomposes them (NFKD) before it filters: the accented
  \<^verbatim>\<open>e\<close> of the word \<open>medicos\<close> becomes \<^verbatim>\<open>e\<close> followed by the combining acute
  accent U+0301, which is neither a word character nor in U+00C0..U+017F, so the filter
  turns it into a space. The word comes out as the two words \<^verbatim>\<open>me dicos\<close>, and the
  feature \<open>menciona_medicos\<close>, which looks for \<^verbatim>\<open>medico\<close>, is 0.
\<close>

theorem preprocesar_texto_medicos:
  "preprocesar_texto unicode_es (Some medicos) = [109, 101, 32, 100, 105, 99, 111, 115]
   \<and> menciona_medicos (features_texto_fila unicode_es (Some medicos)) = 0"
  by code_simp

subsection \<open>The metrics accessor\<close>

text \<open>
  C10. On an instance that is not trained \<^verbatim>\<open>obtener_metricas\<close> returns the string
  \<^verbatim>\<open>"Modelo no entrenado"\<close> and raises nothing; on a trained one it returns the
  metrics dictionary; the two results are of different kinds. The basic classifier's
  accessor does the same.
\<close>

theorem obtener_metricas_no_entrenado:
  "obtener_metricas self =
     (if esta_entrenado self then Diccionario (metricas self)
      else Cadena ''Modelo no entrenado'')
   \<and> obtener_metricas_basico b =
     (if b_esta_entrenado b then Diccionario (b_metricas b)
      else Cadena ''Modelo no entrenado'')"
  by (simp add: obtener_metricas_def obtener_metricas_basico_def)

theorem obtener_metricas_no_entrenado_witness:
  "obtener_metricas (nuevo :: (ustring list \<times> ustring, unit) clasificador)
     = Cadena ''Modelo no entrenado''
   \<and> obtener_metricas (nuevo\<lparr>esta_entrenado := True\<rparr> :: (ustring list \<times> ustring, unit) clasificador)
     = Diccionario None"
  using obtener_metricas_no_entrenado
      [THEN conjunct1, of "nuevo :: (ustring list \<times> ustring, unit) clasificador"]
    obtener_metricas_no_entrenado
      [THEN conjunct1,
       of "nuevo\<lparr>esta_entrenado := True\<rparr> :: (ustring list \<times> ustring, unit) clasificador"]
  by (simp add: nuevo_def)

subsection \<open>Persistence\<close>




text \<open>
  C6, as the claim states it, fails. A path that holds no file makes
  \<^verbatim>\<open>cargar_modelo\<close> print a line and return normally: no exception reaches the
  caller. A pickled dictionary that lacks \<^verbatim>\<open>label_encoders\<close> makes it raise
  \<^verbatim>\<open>KeyError\<close> after the pipeline has been assigned. A pickled pipeline and an
  empty file make it raise \<^verbatim>\<open>KeyError\<close> and \<^verbatim>\<open>EOFError\<close>: the exceptions of
  Python, of no type of the class's own.
\<close>

theorem cargar_modelo_counterexample:
  "cargar_modelo archivos_ejemplo nuevo ''nada.pkl''
     = (Inr (Archivo_no_encontrado ''nada.pkl''), nuevo)
   \<and> cargar_modelo archivos_ejemplo nuevo ''parcial.pkl'' =
       (Inl (KeyError ''label_encoders''),
        nuevo\<lparr>pipeline := Some (Ajustado ([ascii ''GRAVE''], ascii ''GRAVE''))\<rparr>)
   \<and> cargar_modelo archivos_ejemplo nuevo ''basico.pkl'' = (Inl (KeyError ''pipeline''), nuevo)
   \<and> cargar_modelo archivos_ejemplo nuevo ''vacio.pkl'' = (Inl EOFError, nuevo)"
  by (simp add: cargar_modelo_def pickle_load_def archivos_ejemplo_def pickle_parcial_def
        pipeline_suelto_def dict_objeto_def getitem_def except_FileNotFoundError_def nuevo_def)

text \<open>
  C6, amended, case by case.
  \<^item> A path with no file, or in a directory that does not exist: the call returns
    normally, having printed that the file was not found; the instance is unchanged.
  \<^item> A file that cannot be opened, an empty file, bytes that are no pickle:
    \<^verbatim>\<open>PermissionError\<close>, \<^verbatim>\<open>EOFError\<close>, \<^verbatim>\<open>UnpicklingError\<close> reach the caller;
    the instance is unchanged.
  \<^item> A pickled dictionary without \<^verbatim>\<open>pipeline\<close>: \<^verbatim>\<open>KeyError\<close>, instance
    unchanged. Without \<^verbatim>\<open>label_encoders\<close>: \<^verbatim>\<open>KeyError\<close>, and the pipeline of
    the instance is the one of the file. Without \<^verbatim>\<open>metricas\<close>: \<^verbatim>\<open>KeyError\<close>,
    and the pipeline and the encoders are those of the file. With the three keys: the
    load succeeds, the instance holds the values of the file (the empty list for a
    missing \<^verbatim>\<open>feature_names\<close>) and is marked trained.
  \<^item> Any other pickled object whose first subscript raises: that exception reaches
    the caller (unless it is \<^verbatim>\<open>FileNotFoundError\<close>), instance unchanged.
  \<^item> Whenever an exception reaches the caller it is not \<^verbatim>\<open>FileNotFoundError\<close>,
    and the flag and the feature names of the instance are as before.
  \<^item> Whenever the load reports success, the object answered the three subscripts and
    \<^verbatim>\<open>get\<close>, the instance holds the answers, and the flag is set.
\<close>

theorem cargar_modelo_resultados:
  "(fs path = No_existe \<or> fs path = Sin_directorio \<longrightarrow>
      cargar_modelo fs self path = (Inr (Archivo_no_encontrado path), self))
   \<and> (fs path = Sin_permiso \<longrightarrow> cargar_modelo fs self path = (Inl PermissionError, self))
   \<and> (fs path = Archivo Vacio \<longrightarrow> cargar_modelo fs self path = (Inl EOFError, self))
   \<and> (fs path = Archivo Corrupto \<or> (\<exists>df. fs path = Archivo (Csv df)) \<longrightarrow>
        cargar_modelo fs self path = (Inl UnpicklingError, self))
   \<and> (\<forall>d. fs path = Archivo (Pickle_dict d) \<and> md_pipeline d = None \<longrightarrow>
        cargar_modelo fs self path = (Inl (KeyError ''pipeline''), self))
   \<and> (\<forall>d p. fs path = Archivo (Pickle_dict d) \<and> md_pipeline d = Some p
             \<and> md_label_encoders d = None \<longrightarrow>
        cargar_modelo fs self path = (Inl (KeyError ''label_encoders''), self\<lparr>pipeline := p\<rparr>))
   \<and> (\<forall>d p encs. fs path = Archivo (Pickle_dict d) \<and> md_pipeline d = Some p
             \<and> md_label_encoders d = Some encs \<and> md_metricas d = None \<longrightarrow>
        cargar_modelo fs self path =
          (Inl (KeyError ''metricas''), self\<lparr>pipeline := p, label_encoders := encs\<rparr>))
   \<and> (\<forall>d p encs m. fs path = Archivo (Pickle_dict d) \<and> md_pipeline d = Some p
             \<and> md_label_encoders d = Some encs \<and> md_metricas d = Some m \<longrightarrow>
        cargar_modelo fs self path =
          (Inr (Cargado_desde path),
           self\<lparr>pipeline := p, label_encoders := encs, metricas := m,
                feature_names := (case md_feature_names d of None \<Rightarrow> [] | Some ns \<Rightarrow> ns),
                esta_entrenado := True\<rparr>))
   \<and> (\<forall>ob e'. fs path = Archivo (Pickle_objeto ob) \<and> item_pipeline ob = Inl e'
             \<and> e' \<noteq> FileNotFoundError \<longrightarrow>
        cargar_modelo fs self path = (Inl e', self))
   \<and> (fst (cargar_modelo fs self path) = Inl e \<longrightarrow>
        e \<noteq> FileNotFoundError
        \<and> esta_entrenado (snd (cargar_modelo fs self path)) = esta_entrenado self
        \<and> feature_names (snd (cargar_modelo fs self path)) = feature_names self)
   \<and> (fst (cargar_modelo fs self path) = Inr (Cargado_desde path) \<longrightarrow>
        (\<exists>ob. pickle_load fs path = Inr ob
           \<and> item_pipeline ob = Inr (pipeline (snd (cargar_modelo fs self path)))
           \<and> item_label_encoders ob = Inr (label_encoders (snd (cargar_modelo fs self path)))
           \<and> item_metricas ob = Inr (metricas (snd (cargar_modelo fs self path)))
           \<and> get_feature_names ob = Inr (feature_names (snd (cargar_modelo fs self path)))
           \<and> esta_entrenado (snd (cargar_modelo fs self path))))"
proof -
  have a: "fs path = No_existe \<or> fs path = Sin_directorio \<longrightarrow>
      cargar_modelo fs self path = (Inr (Archivo_no_encontrado path), self)"
    by (auto simp: cargar_modelo_def pickle_load_def except_FileNotFoundError_def)
  have b: "fs path = Sin_permiso \<longrightarrow> cargar_modelo fs self path = (Inl PermissionError, self)"
    by (simp add: cargar_modelo_def pickle_load_def except_FileNotFoundError_def)
  have c: "fs path = Archivo Vacio \<longrightarrow> cargar_modelo fs self path = (Inl EOFError, self)"
    by (simp add: cargar_modelo_def pickle_load_def except_FileNotFoundError_def)
  have d: "fs path = Archivo Corrupto \<or> (\<exists>df. fs path = Archivo (Csv df)) \<longrightarrow>
        cargar_modelo fs self path = (Inl UnpicklingError, self)"
    by (auto simp: cargar_modelo_def pickle_load_def except_FileNotFoundError_def)
  have e1: "\<forall>d. fs path = Archivo (Pickle_dict d) \<and> md_pipeline d = None \<longrightarrow>
        cargar_modelo fs self path = (Inl (KeyError ''pipeline''), self)"
    by (simp add: cargar_modelo_def pickle_load_def except_FileNotFoundError_def
          dict_objeto_def getitem_def)
  have e2: "\<forall>d p. fs path = Archivo (Pickle_dict d) \<and> md_pipeline d = Some p
             \<and> md_label_encoders d = None \<longrightarrow>
        cargar_modelo fs self path = (Inl (KeyError ''label_encoders''), self\<lparr>pipeline := p\<rparr>)"
    by (simp add: cargar_modelo_def pickle_load_def except_FileNotFoundError_def
          dict_objeto_def getitem_def)
  have e3: "\<forall>d p encs. fs path = Archivo (Pickle_dict d) \<and> md_pipeline d = Some p
             \<and> md_label_encoders d = Some encs \<and> md_metricas d = None \<longrightarrow>
        cargar_modelo fs self path =
          (Inl (KeyError ''metricas''), self\<lparr>pipeline := p, label_encoders := encs\<rparr>)"
    by (simp add: cargar_modelo_def pickle_load_def except_FileNotFoundError_def
          dict_objeto_def getitem_def)
  have e4: "\<forall>d p encs m. fs path = Archivo (Pickle_dict d) \<and> md_pipeline d = Some p
             \<and> md_label_encoders d = Some encs \<and> md_metricas d = Some m \<longrightarrow>
        cargar_modelo fs self path =
          (Inr (Cargado_desde path),
           self\<lparr>pipeline := p, label_encoders := encs, metricas := m,
                feature_names := (case md_feature_names d of None \<Rightarrow> [] | Some ns \<Rightarrow> ns),
                esta_entrenado := True\<rparr>)"
    by (auto simp: cargar_modelo_def pickle_load_def except_FileNotFoundError_def
          dict_objeto_def getitem_def split: option.splits)
  have f: "\<forall>ob e'. fs path = Archivo (Pickle_objeto ob) \<and> item_pipeline ob = Inl e'
             \<and> e' \<noteq> FileNotFoundError \<longrightarrow>
        cargar_modelo fs self path = (Inl e', self)"
    by (simp add: cargar_modelo_def pickle_load_def except_FileNotFoundError_def)
  have g: "fst (cargar_modelo fs self path) = Inl e \<longrightarrow>
        e \<noteq> FileNotFoundError
        \<and> esta_entrenado (snd (cargar_modelo fs self path)) = esta_entrenado self
        \<and> feature_names (snd (cargar_modelo fs self path)) = feature_names self"
    by (auto simp: cargar_modelo_def except_FileNotFoundError_def Let_def
             split: sum.splits if_splits)
  have h: "fst (cargar_modelo fs self path) = Inr (Cargado_desde path) \<longrightarrow>
        (\<exists>ob. pickle_load fs path = Inr ob
           \<and> item_pipeline ob = Inr (pipeline (snd (cargar_modelo fs self path)))
           \<and> item_label_encoders ob = Inr (label_encoders (snd (cargar_modelo fs self path)))
           \<and> item_metricas ob = Inr (metricas (snd (cargar_modelo fs self path)))
           \<and> get_feature_names ob = Inr (feature_names (snd (cargar_modelo fs self path)))
           \<and> esta_entrenado (snd (cargar_modelo fs self path)))"
    by (auto simp: cargar_modelo_def except_FileNotFoundError_def Let_def
             split: sum.splits if_splits)
  show ?thesis using a b c d e1 e2 e3 e4 f g h by blast
qed

theorem cargar_modelo_resultados_witness:
  "cargar_modelo archivos_ejemplo nuevo ''nada.pkl''
     = (Inr (Archivo_no_encontrado ''nada.pkl''), nuevo)
   \<and> cargar_modelo archivos_ejemplo nuevo ''protegido.pkl'' = (Inl PermissionError, nuevo)
   \<and> cargar_modelo archivos_ejemplo nuevo ''vacio.pkl'' = (Inl EOFError, nuevo)
   \<and> cargar_modelo archivos_ejemplo nuevo ''basico.pkl'' = (Inl (KeyError ''pipeline''), nuevo)"
  using cargar_modelo_resultados
          [where fs = archivos_ejemplo and path = "''nada.pkl''" and self = nuevo]
        cargar_modelo_resultados
          [where fs = archivos_ejemplo and path = "''protegido.pkl''" and self = nuevo]
        cargar_modelo_resultados
          [where fs = archivos_ejemplo and path = "''vacio.pkl''" and self = nuevo]
        cargar_modelo_resultados
          [where fs = archivos_ejemplo and path = "''basico.pkl''" and self = nuevo]
  by (simp add: archivos_ejemplo_def pipeline_suelto_def)

end
